theory Spec2Isabelle
  imports Main "HOL-Library.Sublist"
begin

section \<open>JavaScript strings\<close>

text \<open>
  A JavaScript string is a sequence of UTF-16 code units. The embedding represents a
  string as a \<^typ>\<open>string\<close>, one \<^typ>\<open>char\<close> per code unit, so it covers the
  strings whose code units lie in the range 0..255 (ASCII and Latin-1). On that range
  the library methods used by \<^verbatim>\<open>src/tools.ts\<close> and \<^verbatim>\<open>src/index.ts\<close> are the
  functions below.
\<close>

text \<open>White space as \<^verbatim>\<open>String.prototype.trim\<close> sees it: TAB, LF, VT, FF, CR, SP, NBSP.\<close>

definition isWhiteSpace :: "char \<Rightarrow> bool" where
  "isWhiteSpace c = (of_char c \<in> {9, 10, 11, 12, 13, 32, 160 :: nat})"

definition trim :: "string \<Rightarrow> string" where
  "trim s = rev (dropWhile isWhiteSpace (rev (dropWhile isWhiteSpace s)))"

text \<open>
  \<^verbatim>\<open>String.prototype.toLowerCase\<close>: the letters A..Z and the Latin-1 capitals
  U+00C0..U+00DE (without the multiplication sign U+00D7) move up by 32.
\<close>

definition toLowerChar :: "char \<Rightarrow> char" where
  "toLowerChar c =
     (let n = of_char c :: nat
      in if (65 \<le> n \<and> n \<le> 90) \<or> (192 \<le> n \<and> n \<le> 222 \<and> n \<noteq> 215)
         then char_of (n + 32) else c)"

definition toLowerCase :: "string \<Rightarrow> string" where
  "toLowerCase s = map toLowerChar s"

text \<open>\<^verbatim>\<open>s.startsWith(p)\<close> and \<^verbatim>\<open>s.includes(sub)\<close>.\<close>

definition startsWith :: "string \<Rightarrow> string \<Rightarrow> bool" where
  "startsWith s p = prefix p s"

fun includes_str :: "string \<Rightarrow> string \<Rightarrow> bool" where
  "includes_str [] sub = (sub = [])"
| "includes_str (c # cs) sub = (prefix sub (c # cs) \<or> includes_str cs sub)"

text \<open>
  \<^verbatim>\<open>s.split(sep)\<close> for a string separator: the occurrences of \<open>sep\<close> are found
  from left to right, the search resuming behind each match, and the pieces between them
  are returned; the text after the last match (possibly empty) is the last piece. The
  empty separator cuts the string into its code units.
\<close>

fun splitFrom :: "string \<Rightarrow> string \<Rightarrow> string \<Rightarrow> string list" where
  "splitFrom sep piece [] = [rev piece]"
| "splitFrom sep piece (c # cs) =
     (if prefix sep (c # cs)
      then rev piece # splitFrom sep [] (drop (length sep - 1) cs)
      else splitFrom sep (c # piece) cs)"

definition split :: "string \<Rightarrow> string \<Rightarrow> string list" where
  "split s sep = (if sep = [] then map (\<lambda>c. [c]) s else splitFrom sep [] s)"

text \<open>\<^verbatim>\<open>xs.join(sep)\<close>.\<close>

fun join :: "string list \<Rightarrow> string \<Rightarrow> string" where
  "join [] sep = []"
| "join [x] sep = x"
| "join (x # y # ys) sep = x @ sep @ join (y # ys) sep"

text \<open>The decimal numeral of a natural number, as a template literal prints it.\<close>

fun numberToString :: "nat \<Rightarrow> string" where
  "numberToString n =
     (if n < 10 then [''0123456789'' ! n]
      else numberToString (n div 10) @ [''0123456789'' ! (n mod 10)])"

declare numberToString.simps [simp del]

section \<open>Outline generator (\<^verbatim>\<open>generatePresentationOutline\<close>)\<close>

text \<open>
  The loop \<^verbatim>\<open>for (let i = 1; i <= contentSlides; i++) outline.push(`Main Content ${i}`)\<close>.
\<close>

function pushContent :: "nat \<Rightarrow> nat \<Rightarrow> string list \<Rightarrow> string list" where
  "pushContent i contentSlides outline =
     (if i \<le> contentSlides
      then pushContent (Suc i) contentSlides (outline @ [''Main Content '' @ numberToString i])
      else outline)"
  by pat_completeness auto
termination
  by (relation "measure (\<lambda>(i, n, outline). Suc n - i)") auto

declare pushContent.simps [simp del]

text \<open>
  The duration is an integer number of minutes. \<^verbatim>\<open>Math.floor(duration / 2)\<close> is
  \<open>duration div 2\<close> (both round towards minus infinity). The slide count lies in 5..20,
  and there the double product \<^verbatim>\<open>slides * 0.6\<close> is within 2 * 10^-15 of the
  rational product, which is an integer or at least 1/5 away from one; for a multiple of
  5 the double product is that integer itself (the double 0.6 is below 3/5 by less than
  2.3 * 10^-17, so the product rounds up to it). So \<^verbatim>\<open>Math.floor(slides * 0.6)\<close> is
  \<open>slides * 6 div 10\<close>.
\<close>

definition generatePresentationOutline :: "string \<Rightarrow> int \<Rightarrow> string list" where
  "generatePresentationOutline topic duration =
     (let slides = max 5 (min 20 (duration div 2));
          outline = [''Title: '' @ topic, ''Introduction and Overview'', ''Background and Context''];
          contentSlides = slides * 6 div 10;
          outline = pushContent 1 (nat contentSlides) outline;
          outline = outline @ [''Key Takeaways''];
          outline = outline @ [''Conclusion''];
          outline = outline @ [''Q&A'']
      in take (nat slides) outline)"

section \<open>Slide renderer\<close>

definition createTableOfContents :: "string list \<Rightarrow> string" where
  "createTableOfContents topics =
     (let tocItems = join (map (\<lambda>topic. ''- '' @ topic) topics) ''\<newline>''
      in ''---\<newline>layout: center\<newline>---\<newline>\<newline># Table of Contents\<newline>\<newline>''
         @ tocItems @ ''\<newline>\<newline>---\<newline>'')"

text \<open>The body of the \<^verbatim>\<open>forEach\<close> callback: the slide pushed for one outline item.\<close>

definition itemSlide :: "string \<Rightarrow> string \<Rightarrow> string \<Rightarrow> string" where
  "itemSlide title author item =
     (let (layout, content) =
        (if includes_str (toLowerCase item) ''introduction'' then
           (''intro'',
            ''## Welcome\<newline>\<newline>This presentation covers '' @ toLowerCase title
            @ ''.\<newline>\<newline>### What you'll learn:\<newline>- Key concepts and principles\<newline>- Practical applications\<newline>- Real-world examples'')
         else if includes_str (toLowerCase item) ''conclusion'' then
           (''statement'',
            ''## Summary\<newline>\<newline>We've covered the essential aspects of '' @ toLowerCase title
            @ ''.\<newline>\<newline>### Key takeaways:\<newline>- Point 1\<newline>- Point 2\<newline>- Point 3'')
         else if includes_str (toLowerCase item) ''q&a'' then
           (''end'',
            ''# Questions?\<newline>\<newline>Thank you for your attention!\<newline>\<newline>Contact: '' @ author)
         else
           (''default'',
            ''## '' @ item @ ''\<newline>\<newline><!-- Add your content for \"'' @ item
            @ ''\" here -->\<newline>\<newline>### Key Points:\<newline>- Point 1\<newline>- Point 2\<newline>- Point 3\<newline>\<newline>### Details:\<newline>- Additional information\<newline>- Supporting evidence\<newline>- Examples''));
        layoutConfig = (if layout = ''default'' then '''' else ''layout: '' @ layout @ ''\<newline>'')
      in ''---\<newline>'' @ layoutConfig @ ''---\<newline>\<newline>'' @ content @ ''\<newline>\<newline>---\<newline>'')"

definition createPresentationFromOutline ::
  "string \<Rightarrow> string \<Rightarrow> string list \<Rightarrow> string \<Rightarrow> string" where
  "createPresentationFromOutline title author outline theme =
     (let slides =
        [''---\<newline>theme: '' @ theme @ ''\<newline>title: '' @ title @ ''\<newline>author: '' @ author
         @ ''\<newline>drawings:\<newline>  enabled: true\<newline>  persist: false\<newline>transition: slide-left\<newline>colorSchema: auto\<newline>---\<newline>\<newline># ''
         @ title @ ''\<newline>\<newline>A presentation by '' @ author @ ''\<newline>\<newline>---\<newline>'',
         createTableOfContents (drop 1 outline)];
        slides = foldl (\<lambda>slides item. slides @ [itemSlide title author item]) slides (drop 1 outline)
      in join slides ''\<newline>'')"

definition createComparisonSlide ::
  "string \<Rightarrow> string \<Rightarrow> string list \<Rightarrow> string \<Rightarrow> string list \<Rightarrow> string" where
  "createComparisonSlide title leftTitle leftContent rightTitle rightContent =
     (let leftItems = join (map (\<lambda>item. ''- '' @ item) leftContent) ''\<newline>'';
          rightItems = join (map (\<lambda>item. ''- '' @ item) rightContent) ''\<newline>''
      in ''---\<newline>layout: two-cols\<newline>---\<newline>\<newline># '' @ title
         @ ''\<newline>\<newline>::left::\<newline>\<newline>## '' @ leftTitle @ ''\<newline>\<newline>'' @ leftItems
         @ ''\<newline>\<newline>::right::\<newline>\<newline>## '' @ rightTitle @ ''\<newline>\<newline>'' @ rightItems
         @ ''\<newline>\<newline>---\<newline>'')"

text \<open>
  The layout parameter of \<^verbatim>\<open>createImageSlide\<close> has the type
  \<^verbatim>\<open>'image' | 'image-left' | 'image-right'\<close>; the caption is optional, and an absent
  or empty caption is falsy.
\<close>

datatype imageLayout = Image | ImageLeft | ImageRight

fun layoutName :: "imageLayout \<Rightarrow> string" where
  "layoutName Image = ''image''"
| "layoutName ImageLeft = ''image-left''"
| "layoutName ImageRight = ''image-right''"

definition createImageSlide ::
  "string \<Rightarrow> string \<Rightarrow> string option \<Rightarrow> imageLayout \<Rightarrow> string" where
  "createImageSlide title imagePath caption layout =
     (let captionText =
        (case caption of
           None \<Rightarrow> ''''
         | Some cap \<Rightarrow> if cap = '''' then '''' else ''\<newline>\<newline>*'' @ cap @ ''*'')
      in if layout = Image
         then ''---\<newline>layout: image\<newline>image: '' @ imagePath @ ''\<newline>---\<newline>\<newline># ''
              @ title @ captionText @ ''\<newline>\<newline>---\<newline>''
         else ''---\<newline>layout: '' @ layoutName layout @ ''\<newline>image: '' @ imagePath
              @ ''\<newline>---\<newline>\<newline># '' @ title @ ''\<newline>\<newline>'' @ captionText
              @ ''\<newline>\<newline>---\<newline>'')"

section \<open>Content validator (\<^verbatim>\<open>validateSlideContent\<close>)\<close>

record ValidationResult =
  isValid :: bool
  errors :: "string list"

text \<open>The filter of the callback: the lines of a slide that count as content.\<close>

definition contentLines :: "string \<Rightarrow> string list" where
  "contentLines slide =
     filter (\<lambda>line. trim line \<noteq> [] \<and> \<not> startsWith line ''---'' \<and> \<not> includes_str line '':'')
       (split slide ''\<newline>'')"

text \<open>
  \<^verbatim>\<open>slides.forEach((slide, index) => ...)\<close>: the slides still to visit, the index of
  the first of them, and the errors collected so far.
\<close>

fun checkSlides :: "string list \<Rightarrow> nat \<Rightarrow> string list \<Rightarrow> string list" where
  "checkSlides [] index errs = errs"
| "checkSlides (slide # rest) index errs =
     checkSlides rest (index + 1)
       (if length (contentLines slide) = 0
        then errs @ [''Slide '' @ numberToString (index + 1) @ '' appears to be empty'']
        else errs)"

definition validateSlideContent :: "string \<Rightarrow> ValidationResult" where
  "validateSlideContent content =
     (let errs = [];
          errs = (if \<not> includes_str content ''---''
                  then errs @ [''Missing slide separators (---)''] else errs);
          errs = (if \<not> startsWith content ''---''
                  then errs @ [''Missing frontmatter at the beginning''] else errs);
          slides = split content ''\<newline>---\<newline>'';
          errs = checkSlides slides 0 errs
      in \<lparr>isValid = (length errs = 0), errors = errs\<rparr>)"

section \<open>Recommendation engine (\<^verbatim>\<open>src/index.ts\<close>)\<close>

text \<open>The catalogs of layouts and themes.\<close>

definition SLIDEV_LAYOUTS :: "string list" where
  "SLIDEV_LAYOUTS =
     [''default'', ''center'', ''cover'', ''end'', ''fact'', ''full'', ''image'',
      ''image-left'', ''image-right'', ''iframe'', ''iframe-left'', ''iframe-right'',
      ''intro'', ''none'', ''quote'', ''section'', ''statement'', ''two-cols'',
      ''two-cols-header'']"

definition SLIDEV_THEMES :: "string list" where
  "SLIDEV_THEMES =
     [''seriph'', ''default'', ''apple-basic'', ''bricks'', ''light'', ''academic'',
      ''eloc'', ''penguin'', ''shibainu'']"

text \<open>
  The style is optional: \<^verbatim>\<open>style?.toLowerCase() || ''\<close> is the empty string when
  the style is absent.
\<close>

definition recommendTheme :: "string \<Rightarrow> string option \<Rightarrow> string" where
  "recommendTheme topic style =
     (let topicLower = toLowerCase topic;
          styleLower = (case style of None \<Rightarrow> '''' | Some s \<Rightarrow> toLowerCase s)
      in if includes_str styleLower ''academic'' \<or> includes_str styleLower ''research''
            \<or> includes_str topicLower ''research''
         then ''academic''
         else if includes_str styleLower ''tech'' \<or> includes_str topicLower ''tech''
            \<or> includes_str topicLower ''programming'' \<or> includes_str topicLower ''development''
         then ''apple-basic''
         else if includes_str styleLower ''creative'' \<or> includes_str styleLower ''fun''
            \<or> includes_str topicLower ''creative''
         then ''bricks''
         else if includes_str styleLower ''formal'' \<or> includes_str styleLower ''business''
            \<or> includes_str topicLower ''business''
         then ''light''
         else if includes_str styleLower ''casual'' \<or> includes_str styleLower ''friendly''
         then ''penguin''
         else ''seriph'')"

definition recommendLayout :: "string \<Rightarrow> string" where
  "recommendLayout description =
     (let descLower = toLowerCase description
      in if includes_str descLower ''comparison'' \<or> includes_str descLower ''vs''
            \<or> includes_str descLower ''versus''
         then ''two-cols''
         else if includes_str descLower ''quote'' \<or> includes_str descLower ''saying''
         then ''quote''
         else if includes_str descLower ''image'' \<or> includes_str descLower ''picture''
            \<or> includes_str descLower ''photo''
         then ''image''
         else if includes_str descLower ''center'' \<or> includes_str descLower ''focus''
         then ''center''
         else if includes_str descLower ''intro'' \<or> includes_str descLower ''introduction''
         then ''intro''
         else if includes_str descLower ''end'' \<or> includes_str descLower ''conclusion''
            \<or> includes_str descLower ''thank''
         then ''end''
         else ''default'')"

section \<open>Notions used to state the properties\<close>

text \<open>The value of the local \<^verbatim>\<open>slides\<close> of \<^verbatim>\<open>generatePresentationOutline\<close>.\<close>

definition slideCount :: "int \<Rightarrow> int" where
  "slideCount duration = max 5 (min 20 (duration div 2))"

text \<open>
  The recommendation rules as an ordered table, to be compared with the conditionals of
  \<^verbatim>\<open>recommendTheme\<close> and \<^verbatim>\<open>recommendLayout\<close>: each rule has the keywords looked for
  in the lower-cased style, the keywords looked for in the lower-cased topic (or
  description), and the result. A rule matches when one of its keywords occurs in the
  text it is looked for in; the first matching rule gives the result.
\<close>

definition themeRules :: "(string list \<times> string list \<times> string) list" where
  "themeRules =
     [([''academic'', ''research''], [''research''], ''academic''),
      ([''tech''], [''tech'', ''programming'', ''development''], ''apple-basic''),
      ([''creative'', ''fun''], [''creative''], ''bricks''),
      ([''formal'', ''business''], [''business''], ''light''),
      ([''casual'', ''friendly''], [], ''penguin'')]"

definition layoutRules :: "(string list \<times> string list \<times> string) list" where
  "layoutRules =
     [([], [''comparison'', ''vs'', ''versus''], ''two-cols''),
      ([], [''quote'', ''saying''], ''quote''),
      ([], [''image'', ''picture'', ''photo''], ''image''),
      ([], [''center'', ''focus''], ''center''),
      ([], [''intro'', ''introduction''], ''intro''),
      ([], [''end'', ''conclusion'', ''thank''], ''end'')]"

definition ruleMatches ::
  "string \<Rightarrow> string \<Rightarrow> string list \<times> string list \<times> string \<Rightarrow> bool" where
  "ruleMatches styleLower textLower rule =
     (case rule of (styleKeys, textKeys, result) \<Rightarrow>
        list_ex (includes_str styleLower) styleKeys
        \<or> list_ex (includes_str textLower) textKeys)"

fun firstMatch ::
  "(string list \<times> string list \<times> string) list \<Rightarrow> string \<Rightarrow> string \<Rightarrow> string \<Rightarrow> string" where
  "firstMatch [] styleLower textLower fallback = fallback"
| "firstMatch (rule # rules) styleLower textLower fallback =
     (if ruleMatches styleLower textLower rule then snd (snd rule)
      else firstMatch rules styleLower textLower fallback)"

definition styleLowerOf :: "string option \<Rightarrow> string" where
  "styleLowerOf style = (case style of None \<Rightarrow> '''' | Some s \<Rightarrow> toLowerCase s)"

text \<open>
  The validator's third rule in the words of the specification: a line is stripped when
  it is blank, starts with "---" or contains a colon; a segment with no line left is
  reported under its 1-based position.
\<close>

definition strippedLine :: "string \<Rightarrow> bool" where
  "strippedLine line =
     (list_all isWhiteSpace line \<or> prefix ''---'' line \<or> CHR '':'' \<in> set line)"

definition emptySlideErrors :: "string list \<Rightarrow> string list" where
  "emptySlideErrors segments =
     map (\<lambda>(i, segment). ''Slide '' @ numberToString (i + 1) @ '' appears to be empty'')
       (filter (\<lambda>(i, segment).
            filter (\<lambda>line. \<not> strippedLine line) (split segment ''\<newline>'') = [])
          (enumerate 0 segments))"

section \<open>Properties of the outline generator\<close>

lemma pushContent_eq:
  "pushContent i n outline =
     outline @ map (\<lambda>k. ''Main Content '' @ numberToString k) [i..<Suc n]"
proof (induction i n outline rule: pushContent.induct)
  case (1 i n outline)
  show ?case
  proof (cases "i \<le> n")
    case True
    then have "[i..<Suc n] = i # [Suc i..<Suc n]"
      by (simp add: upt_conv_Cons)
    with True 1 show ?thesis
      by (subst pushContent.simps) simp
  next
    case False
    then show ?thesis
      by (subst pushContent.simps) simp
  qed
qed

lemma outline_unfold:
  "generatePresentationOutline topic duration =
     take (nat (slideCount duration))
       ([''Title: '' @ topic, ''Introduction and Overview'', ''Background and Context'']
        @ map (\<lambda>k. ''Main Content '' @ numberToString k)
            [1..<Suc (nat (slideCount duration * 6 div 10))]
        @ [''Key Takeaways'', ''Conclusion'', ''Q&A''])"
  unfolding generatePresentationOutline_def Let_def slideCount_def pushContent_eq
  by (simp only: append_assoc append.simps)

lemma outline_length:
  "int (length (generatePresentationOutline topic duration)) =
     min (slideCount duration) (6 + slideCount duration * 6 div 10)"
proof -
  have lo: "5 \<le> slideCount duration"
    by (simp add: slideCount_def)
  then have nn: "0 \<le> slideCount duration * 6 div 10"
    by simp
  have "length (generatePresentationOutline topic duration) =
    min (nat (slideCount duration)) (6 + nat (slideCount duration * 6 div 10))"
    by (simp only: outline_unfold length_take length_append length_map length_upt list.size)
       simp
  then show ?thesis
    using lo nn by linarith
qed

lemma slide_range_cases:
  assumes "5 \<le> (s::int)" "s \<le> 20"
  shows "s \<in> {5, 6, 7, 8, 9, 10, 11, 12, 13, 14, 15, 16, 17, 18, 19, 20}"
proof -
  have "s \<in> set [5..20]"
    by (simp only: set_upto atLeastAtMost_iff assms simp_thms)
  then show ?thesis by simp
qed

lemma shaped_length_mono:
  assumes "5 \<le> (s1::int)" "s1 \<le> s2" "s2 \<le> 20"
  shows "min s1 (6 + s1 * 6 div 10) \<le> min s2 (6 + s2 * 6 div 10)"
proof -
  have "s1 \<in> {5, 6, 7, 8, 9, 10, 11, 12, 13, 14, 15, 16, 17, 18, 19, 20}"
    using assms by (intro slide_range_cases) simp_all
  moreover have "s2 \<in> {5, 6, 7, 8, 9, 10, 11, 12, 13, 14, 15, 16, 17, 18, 19, 20}"
    using assms by (intro slide_range_cases) simp_all
  ultimately show ?thesis
    using assms(2) by (elim insertE emptyE; simp)
qed

lemma shaped_length_strict:
  assumes "5 \<le> (s1::int)" "s1 < s2" "s2 \<le> 20" "(s1, s2) \<notin> {(15, 16), (17, 18)}"
  shows "min s1 (6 + s1 * 6 div 10) < min s2 (6 + s2 * 6 div 10)"
proof -
  have "s1 \<in> {5, 6, 7, 8, 9, 10, 11, 12, 13, 14, 15, 16, 17, 18, 19, 20}"
    using assms by (intro slide_range_cases) simp_all
  moreover have "s2 \<in> {5, 6, 7, 8, 9, 10, 11, 12, 13, 14, 15, 16, 17, 18, 19, 20}"
    using assms by (intro slide_range_cases) simp_all
  ultimately show ?thesis
    using assms(2,4) by (elim insertE emptyE; simp)
qed

text \<open>
  Claim C2, as stated: for every topic, \<^verbatim>\<open>generatePresentationOutline(t, 0)\<close> has
  exactly 5 items and \<^verbatim>\<open>generatePresentationOutline(t, 1000)\<close> has exactly 20. The
  second half fails: with 20 slides the outline has 3 + 12 + 3 = 18 items before
  \<^verbatim>\<open>slice(0, 20)\<close>, which then keeps all 18.
\<close>

theorem outline_clamp_max_counterexample:
  "length (generatePresentationOutline ''Test Topic'' 1000) = 18
   \<and> length (generatePresentationOutline ''Test Topic'' 1000) \<noteq> 20"
proof -
  have "int (length (generatePresentationOutline ''Test Topic'' 1000)) = 18"
    by (simp add: outline_length slideCount_def)
  then show ?thesis by simp
qed

text \<open>
  Claim C2, amended: for every topic, \<^verbatim>\<open>generatePresentationOutline(t, 0)\<close> has
  exactly 5 items and \<^verbatim>\<open>generatePresentationOutline(t, 1000)\<close> has exactly 18 items.
\<close>

theorem outline_clamp_boundaries:
  "length (generatePresentationOutline t 0) = 5
   \<and> length (generatePresentationOutline t 1000) = 18"
proof -
  have "int (length (generatePresentationOutline t 0)) = 5"
    by (simp add: outline_length slideCount_def)
  moreover have "int (length (generatePresentationOutline t 1000)) = 18"
    by (simp add: outline_length slideCount_def)
  ultimately show ?thesis by simp
qed

text \<open>
  Claim C3, as stated: for durations \<open>d1 < d2\<close> whose slide counts \<open>d1 div 2\<close> and
  \<open>d2 div 2\<close> lie in 5..20, the outline for \<open>d1\<close> is at most as long as the outline
  for \<open>d2\<close>, and strictly shorter whenever the slide counts differ. The strict half
  fails at 30 and 32 minutes: the slide counts 15 and 16 differ, and both outlines have
  15 items.
\<close>

theorem outline_strict_mono_counterexample:
  "(30::int) < 32 \<and> (5::int) \<le> 30 div 2 \<and> (30::int) div 2 \<le> 20
   \<and> (5::int) \<le> 32 div 2 \<and> (32::int) div 2 \<le> 20 \<and> (30::int) div 2 \<noteq> 32 div 2
   \<and> \<not> length (generatePresentationOutline ''Test Topic'' 30)
         < length (generatePresentationOutline ''Test Topic'' 32)"
proof -
  have "int (length (generatePresentationOutline ''Test Topic'' 30)) = 15"
    by (simp add: outline_length slideCount_def)
  moreover have "int (length (generatePresentationOutline ''Test Topic'' 32)) = 15"
    by (simp add: outline_length slideCount_def)
  ultimately show ?thesis by simp
qed

text \<open>
  Claim C3, amended: for every topic and durations \<open>d1 < d2\<close> whose slide counts
  \<open>d1 div 2\<close> and \<open>d2 div 2\<close> lie in 5..20, the outline for \<open>d1\<close> is at most as long
  as the outline for \<open>d2\<close>, and strictly shorter whenever the slide counts differ and
  are neither 15 and 16 nor 17 and 18.
\<close>

theorem outline_length_mono:
  assumes "d1 < d2"
    and "5 \<le> d1 div 2" and "d1 div 2 \<le> 20"
    and "5 \<le> d2 div 2" and "d2 div 2 \<le> 20"
  shows "length (generatePresentationOutline topic d1)
           \<le> length (generatePresentationOutline topic d2)
         \<and> (d1 div 2 \<noteq> d2 div 2 \<and> (d1 div 2, d2 div 2) \<notin> {(15, 16), (17, 18)} \<longrightarrow>
              length (generatePresentationOutline topic d1)
                < length (generatePresentationOutline topic d2))"
proof -
  define s1 where "s1 = d1 div 2"
  define s2 where "s2 = d2 div 2"
  have b: "5 \<le> s1" "s1 \<le> s2" "s2 \<le> 20"
    using assms by (auto simp: s1_def s2_def intro: zdiv_mono1)
  have l1: "int (length (generatePresentationOutline topic d1)) = min s1 (6 + s1 * 6 div 10)"
    using assms by (simp add: outline_length slideCount_def s1_def)
  have l2: "int (length (generatePresentationOutline topic d2)) = min s2 (6 + s2 * 6 div 10)"
    using assms by (simp add: outline_length slideCount_def s2_def)
  have "min s1 (6 + s1 * 6 div 10) \<le> min s2 (6 + s2 * 6 div 10)"
    using b by (rule shaped_length_mono)
  then have m: "length (generatePresentationOutline topic d1)
      \<le> length (generatePresentationOutline topic d2)"
    using l1 l2 by linarith
  have st: "length (generatePresentationOutline topic d1)
      < length (generatePresentationOutline topic d2)"
    if "s1 \<noteq> s2" "(s1, s2) \<notin> {(15, 16), (17, 18)}"
  proof -
    have "min s1 (6 + s1 * 6 div 10) < min s2 (6 + s2 * 6 div 10)"
      using b that by (intro shaped_length_strict) simp_all
    then show ?thesis
      using l1 l2 by linarith
  qed
  show ?thesis
  proof (intro conjI impI)
    show "length (generatePresentationOutline topic d1)
      \<le> length (generatePresentationOutline topic d2)"
      by (rule m)
  next
    assume "d1 div 2 \<noteq> d2 div 2 \<and> (d1 div 2, d2 div 2) \<notin> {(15, 16), (17, 18)}"
    then show "length (generatePresentationOutline topic d1)
      < length (generatePresentationOutline topic d2)"
      by (intro st) (simp_all only: s1_def s2_def simp_thms)
  qed
qed

theorem outline_length_mono_witness:
  "(10::int) < 30 \<and> (5::int) \<le> 10 div 2 \<and> (10::int) div 2 \<le> 20
   \<and> (5::int) \<le> 30 div 2 \<and> (30::int) div 2 \<le> 20
   \<and> (10::int) div 2 \<noteq> 30 div 2
   \<and> ((10::int) div 2, (30::int) div 2) \<notin> {(15, 16), (17, 18)}
   \<and> length (generatePresentationOutline ''Test Topic'' 10)
         \<le> length (generatePresentationOutline ''Test Topic'' 30)
   \<and> length (generatePresentationOutline ''Test Topic'' 10)
         < length (generatePresentationOutline ''Test Topic'' 30)"
proof -
  have "length (generatePresentationOutline ''Test Topic'' 10)
          \<le> length (generatePresentationOutline ''Test Topic'' 30)
        \<and> ((10::int) div 2 \<noteq> 30 div 2
             \<and> ((10::int) div 2, (30::int) div 2) \<notin> {(15, 16), (17, 18)} \<longrightarrow>
            length (generatePresentationOutline ''Test Topic'' 10)
              < length (generatePresentationOutline ''Test Topic'' 30))"
    by (rule outline_length_mono) simp_all
  moreover have "(10::int) div 2 \<noteq> 30 div 2
      \<and> ((10::int) div 2, (30::int) div 2) \<notin> {(15, 16), (17, 18)}"
    by simp
  ultimately show ?thesis
    by simp
qed

text \<open>
  Claim C5: for every topic, \<^verbatim>\<open>generatePresentationOutline(topic, 10)\<close> is the three
  header items followed by "Main Content 1" and "Main Content 2", with no trailer item;
  and \<^verbatim>\<open>generatePresentationOutline(topic, 30)\<close> is the three headers, "Main Content 1"
  to "Main Content 9", then "Key Takeaways", "Conclusion" and "Q&A", 15 items in all.
\<close>

theorem outline_at_10_and_30:
  "generatePresentationOutline topic 10 =
     [''Title: '' @ topic, ''Introduction and Overview'', ''Background and Context'',
      ''Main Content 1'', ''Main Content 2'']
   \<and> generatePresentationOutline topic 30 =
     [''Title: '' @ topic, ''Introduction and Overview'', ''Background and Context'',
      ''Main Content 1'', ''Main Content 2'', ''Main Content 3'', ''Main Content 4'',
      ''Main Content 5'', ''Main Content 6'', ''Main Content 7'', ''Main Content 8'',
      ''Main Content 9'', ''Key Takeaways'', ''Conclusion'', ''Q&A'']
   \<and> length (generatePresentationOutline topic 10) = 5
   \<and> length (generatePresentationOutline topic 30) = 15"
  by (simp add: outline_unfold slideCount_def upt_conv_Cons numberToString.simps)

text \<open>
  Claim C9: for every topic and every integer duration, the outline is non-empty and its
  first element is "Title: " followed by the topic.
\<close>

theorem outline_title_first:
  "generatePresentationOutline topic duration \<noteq> []
   \<and> hd (generatePresentationOutline topic duration) = ''Title: '' @ topic"
proof -
  have "0 < nat (slideCount duration)"
    by (simp add: slideCount_def)
  then obtain k where "nat (slideCount duration) = Suc k"
    by (auto simp: gr0_conv_Suc)
  then show ?thesis
    by (simp add: outline_unfold)
qed

section \<open>Properties of the image slide\<close>

text \<open>
  Claim C6, as stated: with the layout \<^verbatim>\<open>image\<close> the caption "*cap*" is on the heading
  line of the title, with \<^verbatim>\<open>image-left\<close> it is a paragraph of its own, and the two
  outputs differ in nothing else. The first part fails: the caption text starts with two
  line breaks in both layouts, so the heading line (the sixth line) is "# T" alone and
  the caption is the eighth line.
\<close>

theorem image_caption_heading_counterexample:
  "split (createImageSlide ''T'' ''p.png'' (Some ''cap'') Image) ''\<newline>'' =
     [''---'', ''layout: image'', ''image: p.png'', ''---'', '''', ''# T'', '''',
      ''*cap*'', '''', ''---'', '''']
   \<and> \<not> includes_str
         (split (createImageSlide ''T'' ''p.png'' (Some ''cap'') Image) ''\<newline>'' ! 5)
         ''*cap*''"
  by code_simp

text \<open>
  Claim C6, amended: in both layouts "*cap*" is a line of its own below the heading
  "# T". With \<^verbatim>\<open>image\<close> one empty line separates the two, with \<^verbatim>\<open>image-left\<close> three
  empty lines do; the outputs differ in the layout line and in these two extra empty
  lines, and in nothing else.
\<close>

theorem image_caption_placement:
  "createImageSlide ''T'' ''p.png'' (Some ''cap'') Image =
     ''---\<newline>layout: image\<newline>image: p.png\<newline>---\<newline>\<newline># T\<newline>\<newline>*cap*\<newline>\<newline>---\<newline>''
   \<and> createImageSlide ''T'' ''p.png'' (Some ''cap'') ImageLeft =
     ''---\<newline>layout: image-left\<newline>image: p.png\<newline>---\<newline>\<newline># T\<newline>\<newline>\<newline>\<newline>*cap*\<newline>\<newline>---\<newline>''
   \<and> split (createImageSlide ''T'' ''p.png'' (Some ''cap'') Image) ''\<newline>'' =
     [''---'', ''layout: image'', ''image: p.png'', ''---'', '''', ''# T'', '''',
      ''*cap*'', '''', ''---'', '''']
   \<and> split (createImageSlide ''T'' ''p.png'' (Some ''cap'') ImageLeft) ''\<newline>'' =
     [''---'', ''layout: image-left'', ''image: p.png'', ''---'', '''', ''# T'', '''',
      '''', '''', ''*cap*'', '''', ''---'', '''']"
  by code_simp

section \<open>Properties of the recommendation engine\<close>

lemma recommendTheme_firstMatch:
  "recommendTheme topic style =
     firstMatch themeRules (styleLowerOf style) (toLowerCase topic) ''seriph''"
  by (simp add: recommendTheme_def themeRules_def ruleMatches_def styleLowerOf_def Let_def)

lemma recommendLayout_firstMatch:
  "recommendLayout description =
     firstMatch layoutRules '''' (toLowerCase description) ''default''"
  by (simp add: recommendLayout_def layoutRules_def ruleMatches_def Let_def)

lemma firstMatch_result:
  "firstMatch rules s t d \<in> insert d (set (map (\<lambda>r. snd (snd r)) rules))"
  by (induction rules) auto

lemma firstMatch_default:
  "\<not> list_ex (ruleMatches s t) rules \<Longrightarrow> firstMatch rules s t d = d"
  by (induction rules) auto

text \<open>
  Claim C7, as stated: the theme rules are tested from top to bottom, each on the
  lower-cased style and then on the lower-cased topic; in particular a topic whose
  lower-cased text contains "academic" gives the theme "academic" when no style is given.
  The particular case fails: the first rule looks for "academic" in the style only, and
  in the topic for "research" alone.
\<close>

theorem theme_academic_topic_counterexample:
  "includes_str (toLowerCase ''Academic Writing'') ''academic''
   \<and> recommendTheme ''Academic Writing'' None = ''seriph''
   \<and> recommendTheme ''Academic Writing'' None \<noteq> ''academic''"
  by code_simp

text \<open>
  Claim C7, amended: the theme rules are tested from top to bottom, each rule looking
  for its style keywords in the lower-cased style and then for its topic keywords in the
  lower-cased topic, as the table \<^const>\<open>themeRules\<close> lists them; in particular a topic
  whose lower-cased text contains "research" gives "academic" when no style is given,
  and "academic" is looked for in the style, where it gives "academic" for every topic.
\<close>

theorem theme_rules_in_order:
  "recommendTheme topic style =
     firstMatch themeRules (styleLowerOf style) (toLowerCase topic) ''seriph''
   \<and> (includes_str (toLowerCase topic) ''research'' \<longrightarrow>
        recommendTheme topic None = ''academic'')
   \<and> (includes_str (toLowerCase s) ''academic'' \<longrightarrow>
        recommendTheme topic (Some s) = ''academic'')"
  by (simp add: recommendTheme_firstMatch themeRules_def ruleMatches_def styleLowerOf_def)

theorem theme_rules_in_order_witness:
  "includes_str (toLowerCase ''AI research breakthroughs'') ''research''
   \<and> includes_str (toLowerCase ''Academic'') ''academic''
   \<and> recommendTheme ''AI research breakthroughs'' None = ''academic''
   \<and> recommendTheme ''AI research breakthroughs'' (Some ''Academic'') = ''academic''"
proof -
  have h1: "includes_str (toLowerCase ''AI research breakthroughs'') ''research''"
    by code_simp
  have h2: "includes_str (toLowerCase ''Academic'') ''academic''"
    by code_simp
  from theme_rules_in_order
    [of "''AI research breakthroughs''" "Some ''Academic''" "''Academic''"] h1 h2
  show ?thesis by blast
qed

text \<open>
  Claim C10: \<^verbatim>\<open>recommendTheme\<close> and \<^verbatim>\<open>recommendLayout\<close> return a result for every
  input (the source applies only \<^verbatim>\<open>toLowerCase\<close> and \<^verbatim>\<open>includes\<close> to strings, so the
  model has no failing branch), the result is a member of the theme catalog and of the
  layout catalog respectively, and it is "seriph" respectively "default" when no keyword
  rule matches, as for the empty string.
\<close>

theorem recommend_in_catalog:
  "recommendTheme topic style \<in> set SLIDEV_THEMES
   \<and> recommendLayout description \<in> set SLIDEV_LAYOUTS
   \<and> (\<not> list_ex (ruleMatches (styleLowerOf style) (toLowerCase topic)) themeRules
        \<longrightarrow> recommendTheme topic style = ''seriph'')
   \<and> (\<not> list_ex (ruleMatches '''' (toLowerCase description)) layoutRules
        \<longrightarrow> recommendLayout description = ''default'')
   \<and> recommendTheme '''' None = ''seriph''
   \<and> recommendTheme '''' (Some '''') = ''seriph''
   \<and> recommendLayout '''' = ''default''"
proof -
  have "recommendTheme topic style \<in> set SLIDEV_THEMES"
    using firstMatch_result [of themeRules "styleLowerOf style" "toLowerCase topic" "''seriph''"]
    unfolding recommendTheme_firstMatch
    by (auto simp: themeRules_def SLIDEV_THEMES_def)
  moreover have "recommendLayout description \<in> set SLIDEV_LAYOUTS"
    using firstMatch_result [of layoutRules "''''" "toLowerCase description" "''default''"]
    unfolding recommendLayout_firstMatch
    by (auto simp: layoutRules_def SLIDEV_LAYOUTS_def)
  moreover have "recommendTheme '''' None = ''seriph''"
    by code_simp
  moreover have "recommendTheme '''' (Some '''') = ''seriph''"
    by code_simp
  moreover have "recommendLayout '''' = ''default''"
    by code_simp
  ultimately show ?thesis
    by (simp add: recommendTheme_firstMatch recommendLayout_firstMatch firstMatch_default)
qed

theorem recommend_in_catalog_witness:
  "\<not> list_ex (ruleMatches (styleLowerOf None) (toLowerCase ''cooking'')) themeRules
   \<and> \<not> list_ex (ruleMatches '''' (toLowerCase ''A plain slide'')) layoutRules
   \<and> recommendTheme ''cooking'' None = ''seriph''
   \<and> recommendLayout ''A plain slide'' = ''default''
   \<and> recommendTheme ''cooking'' None \<in> set SLIDEV_THEMES
   \<and> recommendLayout ''A plain slide'' \<in> set SLIDEV_LAYOUTS"
proof -
  have h1: "\<not> list_ex (ruleMatches (styleLowerOf None) (toLowerCase ''cooking'')) themeRules"
    by code_simp
  have h2: "\<not> list_ex (ruleMatches '''' (toLowerCase ''A plain slide'')) layoutRules"
    by code_simp
  from recommend_in_catalog [of "''cooking''" None "''A plain slide''"] h1 h2
  show ?thesis by blast
qed

section \<open>Properties of the content validator\<close>

lemma trim_empty_iff: "trim s = [] \<longleftrightarrow> list_all isWhiteSpace s"
proof -
  have "trim s = [] \<longleftrightarrow> (\<forall>c \<in> set (dropWhile isWhiteSpace s). isWhiteSpace c)"
    by (simp add: trim_def dropWhile_eq_Nil_conv)
  also have "\<dots> \<longleftrightarrow> dropWhile isWhiteSpace s = []"
  proof
    assume all: "\<forall>c \<in> set (dropWhile isWhiteSpace s). isWhiteSpace c"
    show "dropWhile isWhiteSpace s = []"
    proof (rule ccontr)
      assume ne: "dropWhile isWhiteSpace s \<noteq> []"
      then have "\<not> isWhiteSpace (hd (dropWhile isWhiteSpace s))"
        by (rule hd_dropWhile)
      moreover have "hd (dropWhile isWhiteSpace s) \<in> set (dropWhile isWhiteSpace s)"
        using ne by simp
      ultimately show False using all by blast
    qed
  qed (auto dest: set_dropWhileD)
  also have "\<dots> \<longleftrightarrow> list_all isWhiteSpace s"
    by (simp add: dropWhile_eq_Nil_conv list_all_iff)
  finally show ?thesis .
qed

lemma includes_colon: "includes_str s '':'' \<longleftrightarrow> CHR '':'' \<in> set s"
  by (induction s) auto

lemma contentLines_stripped:
  "contentLines slide = filter (\<lambda>line. \<not> strippedLine line) (split slide ''\<newline>'')"
  unfolding contentLines_def strippedLine_def
  by (rule filter_cong) (simp_all add: trim_empty_iff includes_colon startsWith_def)

lemma checkSlides_eq:
  "checkSlides slides index errs =
     errs @ map (\<lambda>(i, segment). ''Slide '' @ numberToString (i + 1) @ '' appears to be empty'')
       (filter (\<lambda>(i, segment). contentLines segment = []) (enumerate index slides))"
  by (induction slides arbitrary: index errs) simp_all

lemma validate_errors:
  "errors (validateSlideContent content) =
     (if includes_str content ''---'' then [] else [''Missing slide separators (---)''])
     @ (if startsWith content ''---'' then [] else [''Missing frontmatter at the beginning''])
     @ emptySlideErrors (split content ''\<newline>---\<newline>'')"
  by (simp add: validateSlideContent_def Let_def checkSlides_eq emptySlideErrors_def
      contentLines_stripped)

lemma validate_isValid:
  "isValid (validateSlideContent content) = (errors (validateSlideContent content) = [])"
  by (simp add: validateSlideContent_def Let_def)

lemma emptySlideErrors_member:
  assumes "i < length segments"
    and "filter (\<lambda>line. \<not> strippedLine line) (split (segments ! i) ''\<newline>'') = []"
  shows "''Slide '' @ numberToString (i + 1) @ '' appears to be empty''
           \<in> set (emptySlideErrors segments)"
proof -
  have "(i, segments ! i) \<in> set (enumerate 0 segments)"
    using assms(1) by (simp add: in_set_enumerate_eq)
  with assms(2) show ?thesis
    unfolding emptySlideErrors_def by force
qed

lemma splitFrom_nonempty: "splitFrom sep piece s \<noteq> []"
  by (induction s arbitrary: piece) simp_all

lemma separator_overlap:
  assumes "suffix ''\<newline>---\<newline>'' (''\<newline>---\<newline>'' @ r)"
  shows "suffix ''\<newline>---\<newline>'' r \<or> r = [] \<or> r = ''---\<newline>''"
proof -
  from assms have "suffix ''\<newline>---\<newline>'' r
      \<or> (\<exists>p. ''\<newline>---\<newline>'' = p @ r \<and> suffix p ''\<newline>---\<newline>'')"
    by (simp only: suffix_append)
  then show ?thesis
  proof
    assume "suffix ''\<newline>---\<newline>'' r"
    then show ?thesis by (rule disjI1)
  next
    assume "\<exists>p. ''\<newline>---\<newline>'' = p @ r \<and> suffix p ''\<newline>---\<newline>''"
    then obtain p where p: "''\<newline>---\<newline>'' = p @ r" "suffix p ''\<newline>---\<newline>''"
      by blast
    then show ?thesis
      by (auto simp: Cons_eq_append_conv suffix_Cons)
  qed
qed

lemma last_splitFrom:
  "suffix ''\<newline>---\<newline>'' s \<Longrightarrow>
     last (splitFrom ''\<newline>---\<newline>'' piece s) = []
     \<or> last (splitFrom ''\<newline>---\<newline>'' piece s) = ''---\<newline>''"
proof (induction s arbitrary: piece rule: length_induct)
  case (1 s)
  show ?case
  proof (cases s)
    case Nil
    with 1 show ?thesis by simp
  next
    case (Cons c cs)
    show ?thesis
    proof (cases "prefix ''\<newline>---\<newline>'' s")
      case True
      then obtain r where r: "s = ''\<newline>---\<newline>'' @ r"
        by (auto simp: prefix_def)
      then have d: "drop (length ''\<newline>---\<newline>'' - 1) cs = r"
        using Cons by simp
      have sf: "splitFrom ''\<newline>---\<newline>'' piece s
          = rev piece # splitFrom ''\<newline>---\<newline>'' [] r"
        using True d unfolding Cons by (simp only: splitFrom.simps if_True)
      have l: "last (splitFrom ''\<newline>---\<newline>'' piece s) = last (splitFrom ''\<newline>---\<newline>'' [] r)"
        by (simp add: sf splitFrom_nonempty)
      from 1(2) r have "suffix ''\<newline>---\<newline>'' r \<or> r = [] \<or> r = ''---\<newline>''"
        by (intro separator_overlap) simp
      then consider "suffix ''\<newline>---\<newline>'' r" | "r = []" | "r = ''---\<newline>''"
        by blast
      then show ?thesis
      proof cases
        case 1
        have "length r < length s" using r by simp
        with 1 "1.IH" show ?thesis
          unfolding l by blast
      next
        case 2
        then show ?thesis unfolding l by simp
      next
        case 3
        have "splitFrom ''\<newline>---\<newline>'' [] ''---\<newline>'' = [''---\<newline>'']"
          by code_simp
        with 3 show ?thesis unfolding l by simp
      qed
    next
      case False
      then have sf: "splitFrom ''\<newline>---\<newline>'' piece s = splitFrom ''\<newline>---\<newline>'' (c # piece) cs"
        unfolding Cons by (simp only: splitFrom.simps if_False)
      from False have "s \<noteq> ''\<newline>---\<newline>''"
        by auto
      with 1(2) have "suffix ''\<newline>---\<newline>'' cs"
        unfolding Cons by (simp only: suffix_Cons) blast
      moreover have "length cs < length s"
        using Cons by simp
      ultimately show ?thesis
        using "1.IH" unfolding sf by blast
    qed
  qed
qed

lemma last_split_separator:
  assumes "suffix ''\<newline>---\<newline>'' content"
  shows "last (split content ''\<newline>---\<newline>'') = []
    \<or> last (split content ''\<newline>---\<newline>'') = ''---\<newline>''"
  using last_splitFrom [OF assms, of "[]"] by (simp add: split_def)

lemma split_nonempty: "split content ''\<newline>---\<newline>'' \<noteq> []"
  by (simp add: split_def splitFrom_nonempty)

lemma trailing_segment_reported:
  assumes "suffix ''\<newline>---\<newline>'' content"
  shows "contentLines (last (split content ''\<newline>---\<newline>'')) = []"
    and "''Slide '' @ numberToString (length (split content ''\<newline>---\<newline>''))
           @ '' appears to be empty'' \<in> set (errors (validateSlideContent content))"
    and "\<not> isValid (validateSlideContent content)"
proof -
  let ?segs = "split content ''\<newline>---\<newline>''"
  have c1: "contentLines [] = []" by code_simp
  have c2: "contentLines ''---\<newline>'' = []" by code_simp
  from last_split_separator [OF assms] c1 c2
  show e: "contentLines (last ?segs) = []"
    by auto
  have ne: "?segs \<noteq> []" by (rule split_nonempty)
  then have i: "length ?segs - 1 < length ?segs"
    by simp
  have "filter (\<lambda>line. \<not> strippedLine line) (split (?segs ! (length ?segs - 1)) ''\<newline>'') = []"
    using e ne by (simp add: contentLines_stripped last_conv_nth)
  with i have "''Slide '' @ numberToString (length ?segs - 1 + 1) @ '' appears to be empty''
      \<in> set (emptySlideErrors ?segs)"
    by (rule emptySlideErrors_member)
  moreover have "length ?segs - 1 + 1 = length ?segs"
    using ne by simp
  ultimately show m: "''Slide '' @ numberToString (length ?segs) @ '' appears to be empty''
      \<in> set (errors (validateSlideContent content))"
    by (simp add: validate_errors)
  then have "errors (validateSlideContent content) \<noteq> []"
    by auto
  then show "\<not> isValid (validateSlideContent content)"
    by (simp add: validate_isValid)
qed

lemma join_suffix:
  "xs \<noteq> [] \<Longrightarrow> suffix t (last xs) \<Longrightarrow> suffix t (join xs sep)"
  by (induction xs sep rule: join.induct) (auto intro: suffix_appendI)

lemma toc_suffix: "suffix ''\<newline>---\<newline>'' (createTableOfContents topics)"
  unfolding createTableOfContents_def Let_def suffix_def by fastforce

lemma itemSlide_suffix: "suffix ''\<newline>---\<newline>'' (itemSlide title author item)"
  unfolding itemSlide_def Let_def suffix_def by (auto split: prod.splits)

lemma foldl_push: "foldl (\<lambda>slides item. slides @ [f item]) init items = init @ map f items"
  by (induction items arbitrary: init) simp_all

lemma deck_suffix:
  "suffix ''\<newline>---\<newline>'' (createPresentationFromOutline title author outline theme)"
proof -
  have "suffix ''\<newline>---\<newline>'' (last ([x, createTableOfContents (drop 1 outline)]
       @ map (itemSlide title author) (drop 1 outline)))" for x
    by (cases "drop 1 outline" rule: rev_cases) (simp_all add: toc_suffix itemSlide_suffix)
  then show ?thesis
    unfolding createPresentationFromOutline_def Let_def foldl_push
    by (intro join_suffix) simp_all
qed

lemma comparison_suffix:
  "suffix ''\<newline>---\<newline>'' (createComparisonSlide title leftTitle leftContent rightTitle rightContent)"
  unfolding createComparisonSlide_def Let_def suffix_def by fastforce

lemma image_suffix:
  "suffix ''\<newline>---\<newline>'' (createImageSlide title imagePath caption layout)"
  unfolding createImageSlide_def Let_def suffix_def by fastforce

text \<open>
  Claim C8: \<^verbatim>\<open>validateSlideContent\<close> splits its input at the separator line, and for
  every segment, counted from 1, strips the lines that are blank, start with "---" or
  contain a colon, and reports "Slide n appears to be empty" when no line is left; so a
  segment whose non-blank lines all contain a colon, such as "Ratio: 3:1", is reported
  as empty although it has content.
\<close>

theorem validator_empty_slide_rule:
  "errors (validateSlideContent content) =
     (if includes_str content ''---'' then [] else [''Missing slide separators (---)''])
     @ (if startsWith content ''---'' then [] else [''Missing frontmatter at the beginning''])
     @ emptySlideErrors (split content ''\<newline>---\<newline>'')
   \<and> isValid (validateSlideContent content) = (errors (validateSlideContent content) = [])
   \<and> (\<forall>i < length (split content ''\<newline>---\<newline>'').
        (\<forall>line \<in> set (split (split content ''\<newline>---\<newline>'' ! i) ''\<newline>'').
            \<not> list_all isWhiteSpace line \<longrightarrow> CHR '':'' \<in> set line)
        \<longrightarrow> ''Slide '' @ numberToString (i + 1) @ '' appears to be empty''
              \<in> set (errors (validateSlideContent content)))"
proof (intro conjI allI impI)
  show "errors (validateSlideContent content) =
     (if includes_str content ''---'' then [] else [''Missing slide separators (---)''])
     @ (if startsWith content ''---'' then [] else [''Missing frontmatter at the beginning''])
     @ emptySlideErrors (split content ''\<newline>---\<newline>'')"
    by (rule validate_errors)
next
  show "isValid (validateSlideContent content) = (errors (validateSlideContent content) = [])"
    by (rule validate_isValid)
next
  fix i
  assume i: "i < length (split content ''\<newline>---\<newline>'')"
    and colon: "\<forall>line \<in> set (split (split content ''\<newline>---\<newline>'' ! i) ''\<newline>'').
            \<not> list_all isWhiteSpace line \<longrightarrow> CHR '':'' \<in> set line"
  have "filter (\<lambda>line. \<not> strippedLine line)
          (split (split content ''\<newline>---\<newline>'' ! i) ''\<newline>'') = []"
    using colon by (auto simp: filter_empty_conv strippedLine_def)
  with i have "''Slide '' @ numberToString (i + 1) @ '' appears to be empty''
      \<in> set (emptySlideErrors (split content ''\<newline>---\<newline>''))"
    by (rule emptySlideErrors_member)
  then show "''Slide '' @ numberToString (i + 1) @ '' appears to be empty''
      \<in> set (errors (validateSlideContent content))"
    by (simp add: validate_errors)
qed

theorem validator_empty_slide_rule_witness:
  "split ''---\<newline># Results\<newline>\<newline>Summary\<newline>---\<newline>Ratio: 3:1'' ''\<newline>---\<newline>''
     = [''---\<newline># Results\<newline>\<newline>Summary'', ''Ratio: 3:1'']
   \<and> split ''Ratio: 3:1'' ''\<newline>'' = [''Ratio: 3:1'']
   \<and> \<not> list_all isWhiteSpace ''Ratio: 3:1''
   \<and> CHR '':'' \<in> set ''Ratio: 3:1''
   \<and> ''Slide 2 appears to be empty''
        \<in> set (errors (validateSlideContent ''---\<newline># Results\<newline>\<newline>Summary\<newline>---\<newline>Ratio: 3:1''))"
proof -
  let ?c = "''---\<newline># Results\<newline>\<newline>Summary\<newline>---\<newline>Ratio: 3:1''"
  have s: "split ?c ''\<newline>---\<newline>'' = [''---\<newline># Results\<newline>\<newline>Summary'', ''Ratio: 3:1'']"
    by code_simp
  have l: "split ''Ratio: 3:1'' ''\<newline>'' = [''Ratio: 3:1'']"
    by code_simp
  have w: "\<not> list_all isWhiteSpace ''Ratio: 3:1''"
    by code_simp
  have n: "numberToString (Suc (Suc 0)) = ''2''"
    by code_simp
  have "\<forall>i < length (split ?c ''\<newline>---\<newline>'').
        (\<forall>line \<in> set (split (split ?c ''\<newline>---\<newline>'' ! i) ''\<newline>'').
            \<not> list_all isWhiteSpace line \<longrightarrow> CHR '':'' \<in> set line)
        \<longrightarrow> ''Slide '' @ numberToString (i + 1) @ '' appears to be empty''
              \<in> set (errors (validateSlideContent ?c))"
    using validator_empty_slide_rule [of ?c] by blast
  then have "(\<forall>line \<in> set (split (split ?c ''\<newline>---\<newline>'' ! 1) ''\<newline>'').
            \<not> list_all isWhiteSpace line \<longrightarrow> CHR '':'' \<in> set line)
        \<longrightarrow> ''Slide '' @ numberToString (1 + 1) @ '' appears to be empty''
              \<in> set (errors (validateSlideContent ?c))"
    by (simp add: s)
  then have "''Slide 2 appears to be empty'' \<in> set (errors (validateSlideContent ?c))"
    by (simp add: s l n)
  with s l w show ?thesis by simp
qed

text \<open>
  Claim C4: every input that ends with the separator line "\<newline>---\<newline>", as every output of
  \<^verbatim>\<open>createPresentationFromOutline\<close>, \<^verbatim>\<open>createComparisonSlide\<close> and
  \<^verbatim>\<open>createImageSlide\<close> does, has a last segment without content (the empty string, or
  "---\<newline>" when the closing separator shares its line break with the separator before
  it), so the validator reports "Slide n appears to be empty" for it, n being the number
  of segments, and the input is not valid.
\<close>

theorem trailing_separator_reported:
  "(suffix ''\<newline>---\<newline>'' content \<longrightarrow>
      (last (split content ''\<newline>---\<newline>'') = []
       \<or> last (split content ''\<newline>---\<newline>'') = ''---\<newline>'')
      \<and> contentLines (last (split content ''\<newline>---\<newline>'')) = []
      \<and> ''Slide '' @ numberToString (length (split content ''\<newline>---\<newline>''))
            @ '' appears to be empty'' \<in> set (errors (validateSlideContent content))
      \<and> \<not> isValid (validateSlideContent content))
   \<and> suffix ''\<newline>---\<newline>'' (createPresentationFromOutline title author outline theme)
   \<and> suffix ''\<newline>---\<newline>''
        (createComparisonSlide ctitle leftTitle leftContent rightTitle rightContent)
   \<and> suffix ''\<newline>---\<newline>'' (createImageSlide ititle imagePath caption layout)"
proof (intro conjI impI)
  assume h: "suffix ''\<newline>---\<newline>'' content"
  show "last (split content ''\<newline>---\<newline>'') = []
       \<or> last (split content ''\<newline>---\<newline>'') = ''---\<newline>''"
    using h by (rule last_split_separator)
  show "contentLines (last (split content ''\<newline>---\<newline>'')) = []"
    using h by (rule trailing_segment_reported(1))
  show "''Slide '' @ numberToString (length (split content ''\<newline>---\<newline>''))
            @ '' appears to be empty'' \<in> set (errors (validateSlideContent content))"
    using h by (rule trailing_segment_reported(2))
  show "\<not> isValid (validateSlideContent content)"
    using h by (rule trailing_segment_reported(3))
next
  show "suffix ''\<newline>---\<newline>'' (createPresentationFromOutline title author outline theme)"
    by (rule deck_suffix)
next
  show "suffix ''\<newline>---\<newline>''
        (createComparisonSlide ctitle leftTitle leftContent rightTitle rightContent)"
    by (rule comparison_suffix)
next
  show "suffix ''\<newline>---\<newline>'' (createImageSlide ititle imagePath caption layout)"
    by (rule image_suffix)
qed

theorem trailing_separator_reported_witness:
  "suffix ''\<newline>---\<newline>'' (createImageSlide ''T'' ''p.png'' (Some ''cap'') Image)
   \<and> split (createImageSlide ''T'' ''p.png'' (Some ''cap'') Image) ''\<newline>---\<newline>''
       = [''---\<newline>layout: image\<newline>image: p.png'', ''\<newline># T\<newline>\<newline>*cap*\<newline>'', '''']
   \<and> ''Slide 3 appears to be empty''
        \<in> set (errors (validateSlideContent
              (createImageSlide ''T'' ''p.png'' (Some ''cap'') Image)))
   \<and> \<not> isValid (validateSlideContent (createImageSlide ''T'' ''p.png'' (Some ''cap'') Image))"
proof -
  let ?c = "createImageSlide ''T'' ''p.png'' (Some ''cap'') Image"
  have h: "suffix ''\<newline>---\<newline>'' ?c"
    by code_simp
  have s: "split ?c ''\<newline>---\<newline>''
      = [''---\<newline>layout: image\<newline>image: p.png'', ''\<newline># T\<newline>\<newline>*cap*\<newline>'', '''']"
    by code_simp
  have n: "numberToString (Suc (Suc (Suc 0))) = ''3''"
    by code_simp
  from trailing_separator_reported [of ?c] h
  have "''Slide '' @ numberToString (length (split ?c ''\<newline>---\<newline>''))
            @ '' appears to be empty'' \<in> set (errors (validateSlideContent ?c))
      \<and> \<not> isValid (validateSlideContent ?c)"
    by blast
  then have "''Slide 3 appears to be empty'' \<in> set (errors (validateSlideContent ?c))
      \<and> \<not> isValid (validateSlideContent ?c)"
    by (simp add: s n)
  with h s show ?thesis
    by blast
qed

text \<open>
  The content that the repository's test \<^verbatim>\<open>should validate correct slide content\<close>
  expects to be valid: the validator reports its front matter as an empty slide.
\<close>

lemma repository_test_content_rejected:
  "validateSlideContent
     ''---\<newline>theme: seriph\<newline>---\<newline>\<newline># Title\<newline>\<newline>Content here\<newline>\<newline>---\<newline>\<newline># Slide 2\<newline>\<newline>More content\<newline>\<newline>---''
   = \<lparr>isValid = False, errors = [''Slide 1 appears to be empty'']\<rparr>"
  by code_simp

text \<open>
  Claim C1 says that the deck built by \<^verbatim>\<open>createPresentationFromOutline\<close> from a
  non-empty outline of generic items is valid for \<^verbatim>\<open>validateSlideContent\<close>. The code
  does the opposite: no deck it builds is valid, whatever the title, author, outline and
  theme, and for a title slide followed by one generic item the validator reports five
  empty slides (the front matter, the two empty segments between a closing and an opening
  separator line, the layout line of the table of contents, and the trailing segment).
\<close>

theorem generated_deck_rejected:
  "\<not> isValid (validateSlideContent
        (createPresentationFromOutline title author outline theme))
   \<and> validateSlideContent
        (createPresentationFromOutline ''Test Presentation'' ''Test Author''
           [''Title: Test'', ''Main Content''] ''seriph'')
      = \<lparr>isValid = False,
         errors = [''Slide 1 appears to be empty'', ''Slide 3 appears to be empty'',
                   ''Slide 4 appears to be empty'', ''Slide 6 appears to be empty'',
                   ''Slide 8 appears to be empty'']\<rparr>"
proof -
  have "\<not> isValid (validateSlideContent
        (createPresentationFromOutline title author outline theme))"
    using deck_suffix by (rule trailing_segment_reported(3))
  moreover have "validateSlideContent
        (createPresentationFromOutline ''Test Presentation'' ''Test Author''
           [''Title: Test'', ''Main Content''] ''seriph'')
      = \<lparr>isValid = False,
         errors = [''Slide 1 appears to be empty'', ''Slide 3 appears to be empty'',
                   ''Slide 4 appears to be empty'', ''Slide 6 appears to be empty'',
                   ''Slide 8 appears to be empty'']\<rparr>"
    by code_simp
  ultimately show ?thesis
    by (rule conjI)
qed

end
